theory Spec2Isabelle
  imports Complex_Main
begin

section \<open>Python values and exceptions\<close>

text \<open>
  The data layer of \<^verbatim>\<open>pokedex_app.py\<close> works on the objects that
  \<^verbatim>\<open>response.json()\<close> returns. They are modelled by the datatype \<open>json\<close>: a Python
  \<^verbatim>\<open>dict\<close> is an association list read with \<open>map_of\<close> (the keys of a dict are
  distinct), a \<^verbatim>\<open>str\<close> is a list of code points below 256, a finite \<^verbatim>\<open>float\<close> is the
  rational it denotes (a binary64 value; infinities and NaN are outside the model).
\<close>

datatype json =
    JNull
  | JBool bool
  | JInt int
  | JFloat rat
  | JStr string
  | JArr "json list"
  | JObj "(string \<times> json) list"

text \<open>
  \<open>RequestException\<close> stands for \<^verbatim>\<open>requests.exceptions.RequestException\<close> and every
  subclass of it: \<^verbatim>\<open>ConnectionError\<close>, \<^verbatim>\<open>Timeout\<close>, \<^verbatim>\<open>HTTPError\<close> (raised by
  \<^verbatim>\<open>raise_for_status\<close>), \<^verbatim>\<open>MissingSchema\<close>, \<^verbatim>\<open>InvalidSchema\<close> and
  \<^verbatim>\<open>JSONDecodeError\<close> (raised by \<^verbatim>\<open>response.json()\<close>). The other constructors are
  the built-in exceptions of the same name, those that the two functions are seen to
  raise below; the type is not a list of everything Python can raise.
\<close>

datatype exn =
    RequestException | KeyError | TypeError | AttributeError | IndexError
  | OverflowError | ValueError

definition bind_exn :: "exn + 'a \<Rightarrow> ('a \<Rightarrow> exn + 'b) \<Rightarrow> exn + 'b" where
  "bind_exn m f = (case m of Inl e \<Rightarrow> Inl e | Inr x \<Rightarrow> f x)"

fun map_exn :: "('a \<Rightarrow> exn + 'b) \<Rightarrow> 'a list \<Rightarrow> exn + 'b list" where
  "map_exn f [] = Inr []"
| "map_exn f (x # xs) = bind_exn (f x) (\<lambda>y. bind_exn (map_exn f xs) (\<lambda>ys. Inr (y # ys)))"

text \<open>\<^verbatim>\<open>v[k]\<close> for a string literal \<open>k\<close>: only a dict can be subscripted by a string.\<close>

definition getitem :: "json \<Rightarrow> string \<Rightarrow> exn + json" where
  "getitem v k =
     (case v of
        JObj kvs \<Rightarrow> (case map_of kvs k of None \<Rightarrow> Inl KeyError | Some x \<Rightarrow> Inr x)
      | _ \<Rightarrow> Inl TypeError)"

text \<open>
  \<^verbatim>\<open>for x in v\<close>: a list yields its elements, a dict its keys, a string its
  characters; nothing else is iterable.
\<close>

definition py_iter :: "json \<Rightarrow> exn + json list" where
  "py_iter v =
     (case v of
        JArr xs \<Rightarrow> Inr xs
      | JObj kvs \<Rightarrow> Inr (map (\<lambda>kv. JStr (fst kv)) kvs)
      | JStr cs \<Rightarrow> Inr (map (\<lambda>c. JStr [c]) cs)
      | _ \<Rightarrow> Inl TypeError)"

subsection \<open>Binary64 arithmetic\<close>

text \<open>\<^verbatim>\<open>n.bit_length()\<close>.\<close>

fun bit_length :: "nat \<Rightarrow> nat" where
  "bit_length n = (if n = 0 then 0 else Suc (bit_length (n div 2)))"

declare bit_length.simps [simp del]

text \<open>The integer nearest to \<open>n / d\<close>, a tie going to the even one (\<open>0 \<le> n\<close>, \<open>0 < d\<close>).\<close>

definition round_half_even :: "int \<Rightarrow> int \<Rightarrow> int" where
  "round_half_even n d =
     (let q = n div d; r = n mod d
      in if 2 * r < d \<or> (2 * r = d \<and> even q) then q else q + 1)"

text \<open>The integer \<open>l\<close> with \<open>2^l \<le> p / q < 2^(l + 1)\<close> (\<open>0 < p\<close>, \<open>0 < q\<close>).\<close>

definition floor_log2 :: "int \<Rightarrow> int \<Rightarrow> int" where
  "floor_log2 p q =
     (let e0 = int (bit_length (nat p)) - int (bit_length (nat q))
      in if q * 2 ^ nat e0 \<le> p * 2 ^ nat (- e0) then e0 else e0 - 1)"

text \<open>
  The binary64 value nearest to \<open>p / q\<close> (\<open>0 < p\<close>, \<open>0 < q\<close>), round-half-even: a
  significand of 53 bits, and the fixed exponent \<open>-1074\<close> for the subnormal values. The
  result is \<open>2^1024\<close> or more exactly when the rounding overflows.
\<close>

definition round_double :: "int \<Rightarrow> int \<Rightarrow> rat" where
  "round_double p q =
     (let e = max (floor_log2 p q - 52) (- 1074);
          m = round_half_even (p * 2 ^ nat (- e)) (q * 2 ^ nat e)
      in of_int m * 2 ^ nat e / 2 ^ nat (- e))"

text \<open>
  \<^verbatim>\<open>float(i)\<close>, the conversion that \<^verbatim>\<open>i / 10.0\<close> applies to an \<^verbatim>\<open>int\<close>: rounded
  half-even, and \<^verbatim>\<open>OverflowError\<close> (int too large to convert to float) when the
  rounded value is not finite.
\<close>

definition float_of_int :: "int \<Rightarrow> exn + rat" where
  "float_of_int i =
     (if i = 0 then Inr 0
      else if 2 ^ 1024 \<le> round_double \<bar>i\<bar> 1 then Inl OverflowError
      else Inr (of_int (sgn i) * round_double \<bar>i\<bar> 1))"

text \<open>\<^verbatim>\<open>x / 10.0\<close> for a finite float \<open>x\<close>: the quotient, rounded.\<close>

definition float_div10 :: "rat \<Rightarrow> rat" where
  "float_div10 x =
     (case quotient_of x of
        (p, q) \<Rightarrow> if p = 0 then 0 else of_int (sgn p) * round_double \<bar>p\<bar> (q * 10))"

text \<open>\<^verbatim>\<open>v / 10.0\<close>: defined on numbers (\<^verbatim>\<open>bool\<close> is a subclass of \<^verbatim>\<open>int\<close>).\<close>

definition truediv10 :: "json \<Rightarrow> exn + rat" where
  "truediv10 v =
     (case v of
        JInt i \<Rightarrow> bind_exn (float_of_int i) (\<lambda>x. Inr (float_div10 x))
      | JBool b \<Rightarrow> Inr (float_div10 (if b then 1 else 0))
      | JFloat x \<Rightarrow> Inr (float_div10 x)
      | _ \<Rightarrow> Inl TypeError)"

subsection \<open>Strings\<close>

text \<open>
  \<^verbatim>\<open>str.lower\<close> on the code points below 256: the letters \<open>A\<close> to \<open>Z\<close> and the
  upper-case letters of Latin-1 (\<open>0xC0\<close> to \<open>0xDE\<close> without the sign \<open>0xD7\<close>) go to the
  code point 32 above; every other one is left as it is.
\<close>

definition upper_letters :: string where
  "upper_letters =
     ''ABCDEFGHIJKLMNOPQRSTUVWXYZ'' @
     [CHR 0xC0, CHR 0xC1, CHR 0xC2, CHR 0xC3, CHR 0xC4, CHR 0xC5, CHR 0xC6, CHR 0xC7,
      CHR 0xC8, CHR 0xC9, CHR 0xCA, CHR 0xCB, CHR 0xCC, CHR 0xCD, CHR 0xCE, CHR 0xCF,
      CHR 0xD0, CHR 0xD1, CHR 0xD2, CHR 0xD3, CHR 0xD4, CHR 0xD5, CHR 0xD6, CHR 0xD8,
      CHR 0xD9, CHR 0xDA, CHR 0xDB, CHR 0xDC, CHR 0xDD, CHR 0xDE]"

definition lower_letters :: string where
  "lower_letters =
     ''abcdefghijklmnopqrstuvwxyz'' @
     [CHR 0xE0, CHR 0xE1, CHR 0xE2, CHR 0xE3, CHR 0xE4, CHR 0xE5, CHR 0xE6, CHR 0xE7,
      CHR 0xE8, CHR 0xE9, CHR 0xEA, CHR 0xEB, CHR 0xEC, CHR 0xED, CHR 0xEE, CHR 0xEF,
      CHR 0xF0, CHR 0xF1, CHR 0xF2, CHR 0xF3, CHR 0xF4, CHR 0xF5, CHR 0xF6, CHR 0xF8,
      CHR 0xF9, CHR 0xFA, CHR 0xFB, CHR 0xFC, CHR 0xFD, CHR 0xFE]"

definition lower_char :: "char \<Rightarrow> char" where
  "lower_char c = (case map_of (zip upper_letters lower_letters) c of None \<Rightarrow> c | Some l \<Rightarrow> l)"

definition lower :: "string \<Rightarrow> string" where
  "lower s = map lower_char s"

text \<open>
  \<^verbatim>\<open>str.capitalize\<close> on ASCII text: the first character in upper case, the others in
  lower case. The title case of a character outside ASCII can be two characters or a
  code point above 255, so the result for other text is taken from the environment, see
  \<open>capitalize_other\<close> below.
\<close>

definition is_ascii :: "string \<Rightarrow> bool" where
  "is_ascii s = list_all (\<lambda>c. \<not> digit7 c) s"

definition upper_char :: "char \<Rightarrow> char" where
  "upper_char c =
     (case map_of (zip ''abcdefghijklmnopqrstuvwxyz'' ''ABCDEFGHIJKLMNOPQRSTUVWXYZ'') c of
        None \<Rightarrow> c
      | Some u \<Rightarrow> u)"

definition capitalize_ascii :: "string \<Rightarrow> string" where
  "capitalize_ascii s = (case s of [] \<Rightarrow> [] | c # cs \<Rightarrow> upper_char c # map lower_char cs)"

text \<open>\<^verbatim>\<open>s.replace(old, ' ')\<close> for a one-character \<open>old\<close>.\<close>

definition replace_char :: "char \<Rightarrow> string \<Rightarrow> string" where
  "replace_char old s = map (\<lambda>c. if c = old then CHR '' '' else c) s"

definition digit_char :: "nat \<Rightarrow> char" where
  "digit_char d = ''0123456789'' ! d"

fun str_nat :: "nat \<Rightarrow> string" where
  "str_nat n = (if n < 10 then [digit_char n] else str_nat (n div 10) @ [digit_char (n mod 10)])"

declare str_nat.simps [simp del]

definition str_int :: "int \<Rightarrow> string" where
  "str_int i = (if i < 0 then CHR ''-'' # str_nat (nat (- i)) else str_nat (nat i))"

text \<open>
  Python converts between \<^verbatim>\<open>int\<close> and decimal text up to 4300 digits
  (\<^verbatim>\<open>sys.int_info.default_max_str_digits\<close>) and raises \<^verbatim>\<open>ValueError\<close> beyond. A value has
  an integer that long somewhere in it:
\<close>

fun exceeds_digits :: "json \<Rightarrow> bool" where
  "exceeds_digits (JInt i) = (4300 < length (str_nat (nat \<bar>i\<bar>)))"
| "exceeds_digits (JArr xs) = list_ex exceeds_digits xs"
| "exceeds_digits (JObj kvs) = list_ex exceeds_digits (map snd kvs)"
| "exceeds_digits v = False"

section \<open>The remote service and the process state\<close>

record response =
  status_code :: nat
  body :: "json option"

text \<open>
  What \<^verbatim>\<open>requests.get(url)\<close> does for a URL: it raises (no response was obtained) or
  it returns a response; \<open>body\<close> is \<open>None\<close> when the payload is not valid JSON.
\<close>

datatype outcome = TransportError | Responds response

text \<open>
  The environment of the program: the remote service, \<^verbatim>\<open>str(v)\<close> for the values whose
  text is not modelled here (floats, lists and dicts), and \<^verbatim>\<open>s.capitalize()\<close> for the
  strings that are not ASCII.
\<close>

record world =
  http_get :: "string \<Rightarrow> outcome"
  str_other :: "json \<Rightarrow> string"
  capitalize_other :: "string \<Rightarrow> string"

text \<open>\<^verbatim>\<open>str(v)\<close>; it prints the integers of \<open>v\<close>.\<close>

definition py_str :: "world \<Rightarrow> json \<Rightarrow> exn + string" where
  "py_str w v =
     (if exceeds_digits v then Inl ValueError
      else Inr (case v of
                  JStr s \<Rightarrow> s
                | JInt i \<Rightarrow> str_int i
                | JBool b \<Rightarrow> (if b then ''True'' else ''False'')
                | JNull \<Rightarrow> ''None''
                | _ \<Rightarrow> str_other w v))"

definition capitalize :: "world \<Rightarrow> string \<Rightarrow> string" where
  "capitalize w s = (if is_ascii s then capitalize_ascii s else capitalize_other w s)"

record pokemon =
  pk_id :: json
  pk_name :: string
  pk_image :: json
  pk_types :: "json list"
  pk_stats :: "(json \<times> json) list"
  pk_height :: rat
  pk_weight :: rat
  pk_description :: string

text \<open>One row of the data frame built by \<^verbatim>\<open>load_pokemon_for_analysis\<close>.\<close>

record row =
  col_ID :: json
  col_Nombre :: string
  col_Tipo_Primario :: json
  col_Tipo_Secundario :: json
  col_HP :: json
  col_Ataque :: json
  col_Defensa :: json
  col_At_Especial :: json
  col_Def_Especial :: json
  col_Velocidad :: json
  col_Altura :: rat
  col_Peso :: rat

text \<open>
  The two \<^verbatim>\<open>st.cache_data\<close> caches, keyed by the argument of the call as it was
  passed, and the list of the URLs requested so far (a ghost field: the request spy).
\<close>

record state =
  fetch_cache :: "json \<rightharpoonup> pokemon option"
  load_cache :: "int \<rightharpoonup> row list"
  requests_log :: "string list"

text \<open>
  \<^verbatim>\<open>requests.get(url)\<close>. A URL that is not a string is turned into text that has no
  \<^verbatim>\<open>http\<close> scheme, which raises \<^verbatim>\<open>MissingSchema\<close> or \<^verbatim>\<open>InvalidSchema\<close> before
  anything is sent.
\<close>

definition requests_get :: "world \<Rightarrow> json \<Rightarrow> state \<Rightarrow> (exn + response) \<times> state" where
  "requests_get w url s =
     (case url of
        JStr u \<Rightarrow>
          (case http_get w u of
             TransportError \<Rightarrow> Inl RequestException
           | Responds r \<Rightarrow> Inr r,
           s\<lparr>requests_log := requests_log s @ [u]\<rparr>)
      | _ \<Rightarrow> (Inl RequestException, s))"

text \<open>\<^verbatim>\<open>response.ok\<close> is false exactly when \<^verbatim>\<open>raise_for_status\<close> raises.\<close>

definition ok :: "response \<Rightarrow> bool" where
  "ok r = (\<not> (400 \<le> status_code r \<and> status_code r < 600))"

definition raise_for_status :: "response \<Rightarrow> exn + unit" where
  "raise_for_status r = (if ok r then Inr () else Inl RequestException)"

text \<open>
  \<^verbatim>\<open>response.json()\<close>: \<^verbatim>\<open>JSONDecodeError\<close> for a payload that is not JSON; the decoder
  reads an integer with \<^verbatim>\<open>int\<close>, whose \<^verbatim>\<open>ValueError\<close> for more than 4300 digits is not
  a \<^verbatim>\<open>JSONDecodeError\<close> and is passed on as it is.
\<close>

definition response_json :: "response \<Rightarrow> exn + json" where
  "response_json r =
     (case body r of
        None \<Rightarrow> Inl RequestException
      | Some v \<Rightarrow> if exceeds_digits v then Inl ValueError else Inr v)"

section \<open>\<^verbatim>\<open>fetch_pokemon_data\<close>\<close>

definition pokemon_url :: "world \<Rightarrow> json \<Rightarrow> exn + string" where
  "pokemon_url w identifier =
     bind_exn (py_str w identifier) (\<lambda>t. Inr (''https://pokeapi.co/api/v2/pokemon/'' @ lower t))"

definition no_disponible :: string where
  "no_disponible = ''Descripci'' @ [CHR 0xF3] @ ''n no disponible.''"

definition flavor_text_of :: "json \<Rightarrow> exn + string" where
  "flavor_text_of v =
     (case v of
        JStr t \<Rightarrow> Inr (replace_char (CHR 0x0C) (replace_char (CHR 0x0A) t))
      | _ \<Rightarrow> Inl AttributeError)"

text \<open>
  \<^verbatim>\<open>next((... for entry in entries if entry['language']['name'] == 'es'), default)\<close>:
  the generator is consumed up to its first element only.
\<close>

fun next_description :: "json list \<Rightarrow> exn + string" where
  "next_description [] = Inr no_disponible"
| "next_description (entry # rest) =
     bind_exn (getitem entry ''language'') (\<lambda>l.
     bind_exn (getitem l ''name'') (\<lambda>n.
       if n = JStr ''es''
       then bind_exn (getitem entry ''flavor_text'') flavor_text_of
       else next_description rest))"

definition description_of :: "json \<Rightarrow> exn + string" where
  "description_of species_data =
     bind_exn (getitem species_data ''flavor_text_entries'') (\<lambda>es.
     bind_exn (py_iter es) next_description)"

text \<open>
  Keys of a Python dict: lists and dicts are unhashable; numbers are equal keys when
  they are equal as numbers (\<^verbatim>\<open>True == 1 == 1.0\<close>).
\<close>

definition hashable :: "json \<Rightarrow> bool" where
  "hashable k = (case k of JArr _ \<Rightarrow> False | JObj _ \<Rightarrow> False | _ \<Rightarrow> True)"

definition key_num :: "json \<Rightarrow> rat option" where
  "key_num k =
     (case k of
        JBool b \<Rightarrow> Some (if b then 1 else 0)
      | JInt i \<Rightarrow> Some (of_int i)
      | JFloat r \<Rightarrow> Some r
      | _ \<Rightarrow> None)"

definition key_eq :: "json \<Rightarrow> json \<Rightarrow> bool" where
  "key_eq a b =
     (case key_num a of
        Some x \<Rightarrow> key_num b = Some x
      | None \<Rightarrow> key_num b = None \<and> a = b)"

text \<open>\<^verbatim>\<open>d[k] = v\<close>: an equal key keeps its place and gets the new value.\<close>

fun dict_set :: "(json \<times> json) list \<Rightarrow> json \<Rightarrow> json \<Rightarrow> (json \<times> json) list" where
  "dict_set [] k v = [(k, v)]"
| "dict_set ((k', v') # d) k v =
     (if key_eq k' k then (k', v) # d else (k', v') # dict_set d k v)"

text \<open>\<^verbatim>\<open>d.get(k, default)\<close>.\<close>

fun dict_get :: "(json \<times> json) list \<Rightarrow> json \<Rightarrow> json \<Rightarrow> json" where
  "dict_get [] k dflt = dflt"
| "dict_get ((k', v') # d) k dflt = (if key_eq k' k then v' else dict_get d k dflt)"

definition stat_name :: "json \<Rightarrow> exn + json" where
  "stat_name s = bind_exn (getitem s ''stat'') (\<lambda>st. getitem st ''name'')"

text \<open>\<^verbatim>\<open>{s['stat']['name']: s['base_stat'] for s in data['stats']}\<close>.\<close>

fun stats_dict :: "json list \<Rightarrow> (json \<times> json) list \<Rightarrow> exn + (json \<times> json) list" where
  "stats_dict [] d = Inr d"
| "stats_dict (s # ss) d =
     bind_exn (stat_name s) (\<lambda>k.
     bind_exn (getitem s ''base_stat'') (\<lambda>v.
       if hashable k then stats_dict ss (dict_set d k v) else Inl TypeError))"

definition type_name :: "json \<Rightarrow> exn + json" where
  "type_name t = bind_exn (getitem t ''type'') (\<lambda>ty. getitem ty ''name'')"

definition capitalize_of :: "world \<Rightarrow> json \<Rightarrow> exn + string" where
  "capitalize_of w v = (case v of JStr s \<Rightarrow> Inr (capitalize w s) | _ \<Rightarrow> Inl AttributeError)"

text \<open>The dict display of the \<^verbatim>\<open>return\<close> statement, its items evaluated in order.\<close>

definition make_record :: "world \<Rightarrow> json \<Rightarrow> string \<Rightarrow> exn + pokemon" where
  "make_record w data description =
     bind_exn (getitem data ''id'') (\<lambda>i.
     bind_exn (bind_exn (getitem data ''name'') (capitalize_of w)) (\<lambda>n.
     bind_exn (bind_exn (bind_exn (bind_exn (getitem data ''sprites'')
         (\<lambda>x. getitem x ''other''))
         (\<lambda>x. getitem x ''official-artwork''))
         (\<lambda>x. getitem x ''front_default'')) (\<lambda>img.
     bind_exn (bind_exn (bind_exn (getitem data ''types'') py_iter) (map_exn type_name)) (\<lambda>ts.
     bind_exn (bind_exn (bind_exn (getitem data ''stats'') py_iter) (\<lambda>ss. stats_dict ss [])) (\<lambda>sts.
     bind_exn (bind_exn (getitem data ''height'') truediv10) (\<lambda>h.
     bind_exn (bind_exn (getitem data ''weight'') truediv10) (\<lambda>wt.
       Inr \<lparr>pk_id = i, pk_name = n, pk_image = img, pk_types = ts, pk_stats = sts,
            pk_height = h, pk_weight = wt, pk_description = description\<rparr>)))))))"

text \<open>\<^verbatim>\<open>requests.get\<close>, \<^verbatim>\<open>raise_for_status\<close> and \<^verbatim>\<open>json\<close> on one URL.\<close>

definition get_json :: "world \<Rightarrow> json \<Rightarrow> state \<Rightarrow> (exn + json) \<times> state" where
  "get_json w url s =
     (case requests_get w url s of
        (r, s') \<Rightarrow>
          (bind_exn r (\<lambda>resp. bind_exn (raise_for_status resp) (\<lambda>_. response_json resp)), s'))"

text \<open>The body of the \<^verbatim>\<open>try\<close> statement.\<close>

definition try_block :: "world \<Rightarrow> json \<Rightarrow> state \<Rightarrow> (exn + pokemon) \<times> state" where
  "try_block w identifier s =
     (case pokemon_url w identifier of
        Inl e \<Rightarrow> (Inl e, s)
      | Inr url \<Rightarrow>
          (case get_json w (JStr url) s of
             (Inl e, s1) \<Rightarrow> (Inl e, s1)
           | (Inr data, s1) \<Rightarrow>
               (case bind_exn (getitem data ''species'') (\<lambda>sp. getitem sp ''url'') of
                  Inl e \<Rightarrow> (Inl e, s1)
                | Inr species_url \<Rightarrow>
                    (case get_json w species_url s1 of
                       (Inl e, s2) \<Rightarrow> (Inl e, s2)
                     | (Inr species_data, s2) \<Rightarrow>
                         (bind_exn (description_of species_data) (make_record w data), s2)))))"

text \<open>
  The function without its decorator: \<^verbatim>\<open>except requests.exceptions.RequestException\<close>
  turns that exception into \<^verbatim>\<open>None\<close>; any other exception leaves the function.
\<close>

definition fetch_uncached :: "world \<Rightarrow> json \<Rightarrow> state \<Rightarrow> (exn + pokemon option) \<times> state" where
  "fetch_uncached w identifier s =
     (case try_block w identifier s of
        (Inl RequestException, s') \<Rightarrow> (Inr None, s')
      | (Inl e, s') \<Rightarrow> (Inl e, s')
      | (Inr p, s') \<Rightarrow> (Inr (Some p), s'))"

text \<open>
  \<^verbatim>\<open>@st.cache_data\<close>: a value stored for the argument is returned without running the
  function; otherwise the function runs and its return value is stored. A call that
  raises stores nothing.
\<close>

definition fetch_pokemon_data :: "world \<Rightarrow> json \<Rightarrow> state \<Rightarrow> (exn + pokemon option) \<times> state" where
  "fetch_pokemon_data w identifier s =
     (case fetch_cache s identifier of
        Some v \<Rightarrow> (Inr v, s)
      | None \<Rightarrow>
          (case fetch_uncached w identifier s of
             (Inl e, s') \<Rightarrow> (Inl e, s')
           | (Inr v, s') \<Rightarrow> (Inr v, s'\<lparr>fetch_cache := (fetch_cache s')(identifier \<mapsto> v)\<rparr>)))"

section \<open>\<^verbatim>\<open>load_pokemon_for_analysis\<close>\<close>

definition listing_url :: "int \<Rightarrow> string" where
  "listing_url limit = ''https://pokeapi.co/api/v2/pokemon?limit='' @ str_int limit"

definition first_type :: "json list \<Rightarrow> exn + json" where
  "first_type ts = (case ts of [] \<Rightarrow> Inl IndexError | t # _ \<Rightarrow> Inr t)"

definition second_type :: "json list \<Rightarrow> json" where
  "second_type ts = (if length ts > 1 then ts ! 1 else JNull)"

definition flat_data :: "pokemon \<Rightarrow> exn + row" where
  "flat_data data =
     bind_exn (first_type (pk_types data)) (\<lambda>t0.
       Inr \<lparr>col_ID = pk_id data, col_Nombre = pk_name data, col_Tipo_Primario = t0,
            col_Tipo_Secundario = second_type (pk_types data),
            col_HP = dict_get (pk_stats data) (JStr ''hp'') (JInt 0),
            col_Ataque = dict_get (pk_stats data) (JStr ''attack'') (JInt 0),
            col_Defensa = dict_get (pk_stats data) (JStr ''defense'') (JInt 0),
            col_At_Especial = dict_get (pk_stats data) (JStr ''special-attack'') (JInt 0),
            col_Def_Especial = dict_get (pk_stats data) (JStr ''special-defense'') (JInt 0),
            col_Velocidad = dict_get (pk_stats data) (JStr ''speed'') (JInt 0),
            col_Altura = pk_height data, col_Peso = pk_weight data\<rparr>)"

text \<open>The \<^verbatim>\<open>for pokemon in results\<close> loop; \<open>acc\<close> is \<^verbatim>\<open>all_pokemon_data\<close>.\<close>

fun load_loop :: "world \<Rightarrow> json list \<Rightarrow> row list \<Rightarrow> state \<Rightarrow> (exn + row list) \<times> state" where
  "load_loop w [] acc s = (Inr acc, s)"
| "load_loop w (pokemon # rest) acc s =
     (case getitem pokemon ''name'' of
        Inl e \<Rightarrow> (Inl e, s)
      | Inr nm \<Rightarrow>
          (case fetch_pokemon_data w nm s of
             (Inl e, s') \<Rightarrow> (Inl e, s')
           | (Inr None, s') \<Rightarrow> load_loop w rest acc s'
           | (Inr (Some data), s') \<Rightarrow>
               (case flat_data data of
                  Inl e \<Rightarrow> (Inl e, s')
                | Inr r \<Rightarrow> load_loop w rest (acc @ [r]) s')))"

definition load_uncached :: "world \<Rightarrow> int \<Rightarrow> state \<Rightarrow> (exn + row list) \<times> state" where
  "load_uncached w limit s =
     (case requests_get w (JStr (listing_url limit)) s of
        (Inl e, s1) \<Rightarrow> (Inl e, s1)
      | (Inr resp, s1) \<Rightarrow>
          (if ok resp
           then (case bind_exn (bind_exn (response_json resp) (\<lambda>j. getitem j ''results'')) py_iter of
                   Inl e \<Rightarrow> (Inl e, s1)
                 | Inr results \<Rightarrow> load_loop w results [] s1)
           else (Inr [], s1)))"

definition load_pokemon_for_analysis :: "world \<Rightarrow> int \<Rightarrow> state \<Rightarrow> (exn + row list) \<times> state" where
  "load_pokemon_for_analysis w limit s =
     (case load_cache s limit of
        Some df \<Rightarrow> (Inr df, s)
      | None \<Rightarrow>
          (case load_uncached w limit s of
             (Inl e, s') \<Rightarrow> (Inl e, s')
           | (Inr df, s') \<Rightarrow> (Inr df, s'\<lparr>load_cache := (load_cache s')(limit \<mapsto> df)\<rparr>)))"

section \<open>Reading the service: what the claims speak about\<close>

text \<open>What the three steps \<^verbatim>\<open>requests.get\<close>, \<^verbatim>\<open>raise_for_status\<close>, \<^verbatim>\<open>json\<close> give for a URL.\<close>

definition fetch_json :: "world \<Rightarrow> json \<Rightarrow> exn + json" where
  "fetch_json w url =
     (case url of
        JStr u \<Rightarrow>
          (case http_get w u of
             TransportError \<Rightarrow> Inl RequestException
           | Responds r \<Rightarrow> bind_exn (raise_for_status r) (\<lambda>_. response_json r))
      | _ \<Rightarrow> Inl RequestException)"

definition requested :: "json \<Rightarrow> string list" where
  "requested url = (case url of JStr u \<Rightarrow> [u] | _ \<Rightarrow> [])"

text \<open>The payload that these three steps return for a URL, when they return one.\<close>

definition payload_at :: "world \<Rightarrow> json \<Rightarrow> json option" where
  "payload_at w url = (case fetch_json w url of Inl e \<Rightarrow> None | Inr v \<Rightarrow> Some v)"

text \<open>The decoded payload of the primary request, when there is one.\<close>

definition primary_data :: "world \<Rightarrow> json \<Rightarrow> json option" where
  "primary_data w identifier =
     (case pokemon_url w identifier of
        Inl e \<Rightarrow> None
      | Inr u \<Rightarrow> payload_at w (JStr u))"

text \<open>
  A request fails: the transport raises, the status is an error status, or the payload
  is not valid JSON.
\<close>

definition request_fails :: "world \<Rightarrow> json \<Rightarrow> bool" where
  "request_fails w url =
     (case url of
        JStr u \<Rightarrow>
          (case http_get w u of
             TransportError \<Rightarrow> True
           | Responds r \<Rightarrow> (400 \<le> status_code r \<and> status_code r < 600) \<or> body r = None)
      | _ \<Rightarrow> True)"

definition species_url_of :: "json \<Rightarrow> exn + json" where
  "species_url_of data = bind_exn (getitem data ''species'') (\<lambda>sp. getitem sp ''url'')"

definition primary_fails :: "world \<Rightarrow> json \<Rightarrow> bool" where
  "primary_fails w identifier =
     (case pokemon_url w identifier of
        Inl e \<Rightarrow> False
      | Inr u \<Rightarrow> request_fails w (JStr u))"

definition species_fails :: "world \<Rightarrow> json \<Rightarrow> bool" where
  "species_fails w identifier =
     (case primary_data w identifier of
        None \<Rightarrow> False
      | Some data \<Rightarrow>
          (case species_url_of data of Inl e \<Rightarrow> False | Inr u \<Rightarrow> request_fails w u))"

text \<open>The decoded payload of the species request, when there is one.\<close>

definition species_data_of :: "world \<Rightarrow> json \<Rightarrow> json option" where
  "species_data_of w identifier =
     (case primary_data w identifier of
        None \<Rightarrow> None
      | Some data \<Rightarrow>
          (case species_url_of data of
             Inl e \<Rightarrow> None
           | Inr u \<Rightarrow> payload_at w u))"

definition is_es :: "json \<Rightarrow> bool" where
  "is_es entry =
     (bind_exn (getitem entry ''language'') (\<lambda>l. getitem l ''name'') = Inr (JStr ''es''))"

text \<open>The entries of the listing the loader iterates over (none when it does not iterate).\<close>

definition listed :: "world \<Rightarrow> int \<Rightarrow> json list" where
  "listed w limit =
     (case http_get w (listing_url limit) of
        TransportError \<Rightarrow> []
      | Responds r \<Rightarrow>
          (if ok r
           then (case bind_exn (bind_exn (response_json r) (\<lambda>j. getitem j ''results'')) py_iter of
                   Inl e \<Rightarrow> []
                 | Inr results \<Rightarrow> results)
           else []))"

text \<open>
  The values the loader gets from \<^verbatim>\<open>fetch_pokemon_data\<close>, entry after entry, each call
  in the state the one before left; it stops where the loop would stop.
\<close>

fun fetch_trace :: "world \<Rightarrow> json list \<Rightarrow> state \<Rightarrow> pokemon option list" where
  "fetch_trace w [] s = []"
| "fetch_trace w (pokemon # rest) s =
     (case getitem pokemon ''name'' of
        Inl e \<Rightarrow> []
      | Inr nm \<Rightarrow>
          (case fetch_pokemon_data w nm s of
             (Inl e, s') \<Rightarrow> []
           | (Inr v, s') \<Rightarrow> v # fetch_trace w rest s'))"

text \<open>
  How a stat column \<open>c\<close> of a row reads the stats of a record: the value stored under
  the key, or 0 when the key is absent (\<^verbatim>\<open>data['stats'].get(k, 0)\<close>).
\<close>

definition reads_stat :: "pokemon \<Rightarrow> string \<Rightarrow> json \<Rightarrow> bool" where
  "reads_stat r k c =
     (if JStr k \<in> fst ` set (pk_stats r) then (JStr k, c) \<in> set (pk_stats r) else c = JInt 0)"

text \<open>
  The fetches of the loop that returned, with the name asked for and the value
  returned, up to where the loop stops.
\<close>

fun fetched :: "world \<Rightarrow> json list \<Rightarrow> state \<Rightarrow> (json \<times> pokemon option) list" where
  "fetched w [] s = []"
| "fetched w (pokemon # rest) s =
     (case getitem pokemon ''name'' of
        Inl e \<Rightarrow> []
      | Inr nm \<Rightarrow>
          (case fetch_pokemon_data w nm s of
             (Inl e, s') \<Rightarrow> []
           | (Inr None, s') \<Rightarrow> (nm, None) # fetched w rest s'
           | (Inr (Some data), s') \<Rightarrow>
               (nm, Some data) #
               (case flat_data data of Inl e \<Rightarrow> [] | Inr r \<Rightarrow> fetched w rest s')))"

section \<open>A concrete service\<close>

definition entity :: "int \<Rightarrow> string \<Rightarrow> string \<Rightarrow> string list \<Rightarrow> (string \<times> int) list \<Rightarrow> int \<Rightarrow> int \<Rightarrow> json" where
  "entity i nm species ts sts h wt =
     JObj [(''id'', JInt i), (''name'', JStr nm),
           (''species'', JObj [(''name'', JStr nm), (''url'', JStr species)]),
           (''sprites'', JObj [(''other'', JObj [(''official-artwork'',
              JObj [(''front_default'', JStr (''artwork/'' @ nm @ ''.png''))])])]),
           (''types'', JArr (map (\<lambda>t. JObj [(''type'', JObj [(''name'', JStr t)])]) ts)),
           (''stats'', JArr (map (\<lambda>kv. JObj [(''base_stat'', JInt (snd kv)),
              (''stat'', JObj [(''name'', JStr (fst kv))])]) sts)),
           (''height'', JInt h), (''weight'', JInt wt)]"

definition flavor :: "string \<Rightarrow> string \<Rightarrow> json" where
  "flavor lang txt = JObj [(''flavor_text'', JStr txt), (''language'', JObj [(''name'', JStr lang)])]"

definition pikachu_data :: json where
  "pikachu_data =
     entity 25 ''pikachu'' ''https://pokeapi.co/api/v2/pokemon-species/25/'' [''electric'']
       [(''hp'', 35), (''attack'', 55), (''defense'', 40), (''special-attack'', 50),
        (''special-defense'', 50), (''speed'', 90)] 4 60"

definition pikachu_species :: json where
  "pikachu_species =
     JObj [(''flavor_text_entries'',
       JArr [flavor ''en'' ''Mouse'',
             flavor ''es'' (''Un'' @ [CHR 0x0A] @ ''rat'' @ [CHR 0x0C] @ ''on''),
             flavor ''es'' ''Otro''])]"

definition raichu_data :: json where
  "raichu_data =
     entity 26 ''raichu'' ''https://pokeapi.co/api/v2/pokemon-species/26/'' [''electric'', ''psychic'']
       [(''hp'', 60)] 8 300"

definition raichu_species :: json where
  "raichu_species = JObj [(''flavor_text_entries'', JArr [flavor ''en'' ''Mouse''])]"

definition typeless_data :: json where
  "typeless_data =
     entity 0 ''typeless'' ''https://pokeapi.co/api/v2/pokemon-species/26/'' [] [] 1 1"

definition orphan_data :: json where
  "orphan_data =
     entity 7 ''orphan'' ''https://pokeapi.co/api/v2/pokemon-species/7/'' [''water''] [] 5 90"

definition bare_data :: json where
  "bare_data =
     JObj [(''species'', JObj [(''url'', JStr ''https://pokeapi.co/api/v2/pokemon-species/25/'')])]"

definition named :: "string \<Rightarrow> json" where
  "named nm = JObj [(''name'', JStr nm)]"

definition results_of :: "string list \<Rightarrow> json" where
  "results_of nms = JObj [(''count'', JInt 1302), (''results'', JArr (map named nms))]"

definition answers :: "nat \<Rightarrow> json option \<Rightarrow> outcome" where
  "answers st b = Responds \<lparr>status_code = st, body = b\<rparr>"

definition service_table :: "(string \<times> outcome) list" where
  "service_table =
     [(''https://pokeapi.co/api/v2/pokemon/pikachu'', answers 200 (Some pikachu_data)),
      (''https://pokeapi.co/api/v2/pokemon/raichu'', answers 200 (Some raichu_data)),
      (''https://pokeapi.co/api/v2/pokemon/typeless'', answers 200 (Some typeless_data)),
      (''https://pokeapi.co/api/v2/pokemon/orphan'', answers 200 (Some orphan_data)),
      (''https://pokeapi.co/api/v2/pokemon/broken'', answers 200 (Some (JObj []))),
      (''https://pokeapi.co/api/v2/pokemon/bare'', answers 200 (Some bare_data)),
      (''https://pokeapi.co/api/v2/pokemon/missingno'', answers 404 None),
      (''https://pokeapi.co/api/v2/pokemon-species/25/'', answers 200 (Some pikachu_species)),
      (''https://pokeapi.co/api/v2/pokemon-species/26/'', answers 200 (Some raichu_species)),
      (''https://pokeapi.co/api/v2/pokemon-species/7/'', answers 503 None),
      (''https://pokeapi.co/api/v2/pokemon?limit=0'', answers 200 (Some (results_of [''pikachu'']))),
      (''https://pokeapi.co/api/v2/pokemon?limit=1'',
         answers 200 (Some (results_of [''pikachu'', ''raichu'']))),
      (''https://pokeapi.co/api/v2/pokemon?limit=2'',
         answers 200 (Some (results_of [''typeless'', ''pikachu'']))),
      (''https://pokeapi.co/api/v2/pokemon?limit=3'',
         answers 200 (Some (results_of [''pikachu'', ''missingno'', ''raichu'']))),
      (''https://pokeapi.co/api/v2/pokemon?limit=4'', answers 200 (Some (results_of []))),
      (''https://pokeapi.co/api/v2/pokemon?limit=5'', answers 500 None),
      (''https://pokeapi.co/api/v2/pokemon?limit=6'', answers 200 None),
      (''https://pokeapi.co/api/v2/pokemon?limit=7'', answers 304 None)]"

text \<open>Every request outside the table finds the network down.\<close>

definition service :: world where
  "service =
     \<lparr>http_get = (\<lambda>u. case map_of service_table u of None \<Rightarrow> TransportError | Some r \<Rightarrow> r),
      str_other = (\<lambda>v. []), capitalize_other = (\<lambda>s. s)\<rparr>"

definition cold :: state where
  "cold = \<lparr>fetch_cache = Map.empty, load_cache = Map.empty, requests_log = []\<rparr>"

definition pikachu_record :: pokemon where
  "pikachu_record =
     \<lparr>pk_id = JInt 25, pk_name = ''Pikachu'', pk_image = JStr ''artwork/pikachu.png'',
      pk_types = [JStr ''electric''],
      pk_stats = [(JStr ''hp'', JInt 35), (JStr ''attack'', JInt 55), (JStr ''defense'', JInt 40),
                  (JStr ''special-attack'', JInt 50), (JStr ''special-defense'', JInt 50),
                  (JStr ''speed'', JInt 90)],
      pk_height = 3602879701896397 / 9007199254740992, pk_weight = 6,
      pk_description = ''Un rat on''\<rparr>"

definition typeless_record :: pokemon where
  "typeless_record =
     \<lparr>pk_id = JInt 0, pk_name = ''Typeless'', pk_image = JStr ''artwork/typeless.png'',
      pk_types = [], pk_stats = [],
      pk_height = 3602879701896397 / 36028797018963968,
      pk_weight = 3602879701896397 / 36028797018963968,
      pk_description = no_disponible\<rparr>"

definition offline :: world where
  "offline =
     \<lparr>http_get = (\<lambda>u. TransportError), str_other = (\<lambda>v. []), capitalize_other = (\<lambda>s. s)\<rparr>"

section \<open>Basic facts\<close>

lemma bind_exn_Inl [simp]: "bind_exn (Inl e) f = Inl e"
  by (simp add: bind_exn_def)

lemma bind_exn_Inr [simp]: "bind_exn (Inr x) f = f x"
  by (simp add: bind_exn_def)

lemma bind_exn_eq_Inr: "(bind_exn m f = Inr y) = (\<exists>x. m = Inr x \<and> f x = Inr y)"
  by (cases m) simp_all

lemma log_append_Nil [simp]: "s\<lparr>requests_log := requests_log s\<rparr> = (s :: state)"
  by simp

lemma get_json_eq:
  "get_json w url s = (fetch_json w url, s\<lparr>requests_log := requests_log s @ requested url\<rparr>)"
  by (cases url; cases s)
     (auto simp: get_json_def requests_get_def fetch_json_def requested_def split: outcome.splits)

lemma request_fails_iff: "request_fails w url = (fetch_json w url = Inl RequestException)"
  by (cases url)
     (auto simp: request_fails_def fetch_json_def raise_for_status_def response_json_def ok_def
           split: outcome.splits option.splits)

lemma payload_at_eq: "(payload_at w url = Some v) = (fetch_json w url = Inr v)"
  by (simp add: payload_at_def split: sum.splits)

lemma fetch_json_primary:
  "pokemon_url w i = Inr u \<Longrightarrow>
   (fetch_json w (JStr u) = Inr data) = (primary_data w i = Some data)"
  by (simp add: primary_data_def payload_at_eq)

text \<open>The try block as a function of the service alone.\<close>

lemma try_block_no_url: "pokemon_url w i = Inl e \<Longrightarrow> try_block w i s = (Inl e, s)"
  by (simp add: try_block_def)

lemma try_block_eq:
  "pokemon_url w i = Inr url \<Longrightarrow>
   try_block w i s =
     (case fetch_json w (JStr url) of
        Inl e \<Rightarrow> (Inl e, s\<lparr>requests_log := requests_log s @ [url]\<rparr>)
      | Inr data \<Rightarrow>
          (case species_url_of data of
             Inl e \<Rightarrow> (Inl e, s\<lparr>requests_log := requests_log s @ [url]\<rparr>)
           | Inr u \<Rightarrow>
               (bind_exn (fetch_json w u) (\<lambda>sd. bind_exn (description_of sd) (make_record w data)),
                s\<lparr>requests_log := requests_log s @ [url] @ requested u\<rparr>)))"
  by (auto simp: try_block_def get_json_eq species_url_of_def requested_def split: sum.splits)

lemma try_block_caches:
  "fetch_cache (snd (try_block w i s)) = fetch_cache s"
  "load_cache (snd (try_block w i s)) = load_cache s"
  by (cases "pokemon_url w i"; auto simp: try_block_eq try_block_no_url split: sum.splits)+

lemma fetch_uncached_caches:
  "fetch_cache (snd (fetch_uncached w i s)) = fetch_cache s"
  "load_cache (snd (fetch_uncached w i s)) = load_cache s"
  using try_block_caches [of w i s]
  by (auto simp: fetch_uncached_def split: prod.splits sum.splits exn.splits)

lemma fetch_uncached_not_RequestException:
  "fst (fetch_uncached w i s) \<noteq> Inl RequestException"
  by (auto simp: fetch_uncached_def split: prod.splits sum.splits exn.splits)

lemma fetch_not_RequestException:
  "fst (fetch_pokemon_data w i s) \<noteq> Inl RequestException"
  using fetch_uncached_not_RequestException [of w i s]
  by (auto simp: fetch_pokemon_data_def split: option.splits prod.splits sum.splits)

lemma fetch_uncached_fails:
  assumes "primary_fails w i \<or> species_fails w i"
  shows "fst (fetch_uncached w i s) = Inr None"
proof -
  from assms obtain url where url: "pokemon_url w i = Inr url"
    by (cases "pokemon_url w i")
       (auto simp: primary_fails_def species_fails_def primary_data_def)
  from assms show ?thesis
    by (auto simp: fetch_uncached_def try_block_eq [OF url] primary_fails_def species_fails_def
          url request_fails_iff fetch_json_primary [OF url, symmetric]
          split: sum.splits option.splits)
qed

lemma fetch_miss:
  "fetch_cache s i = None \<Longrightarrow>
   fst (fetch_pokemon_data w i s) = fst (fetch_uncached w i s)"
  by (auto simp: fetch_pokemon_data_def split: prod.splits sum.splits)

lemma fetch_success:
  assumes "fetch_cache s i = None" and "fst (fetch_pokemon_data w i s) = Inr (Some r)"
  shows "\<exists>data u sd d. primary_data w i = Some data \<and> species_url_of data = Inr u
           \<and> species_data_of w i = Some sd \<and> description_of sd = Inr d
           \<and> make_record w data d = Inr r"
proof -
  from assms have unc: "fst (fetch_uncached w i s) = Inr (Some r)"
    by (simp add: fetch_miss)
  then have tb: "fst (try_block w i s) = Inr r"
    by (auto simp: fetch_uncached_def split: prod.splits sum.splits exn.splits)
  then obtain url where url: "pokemon_url w i = Inr url"
    by (cases "pokemon_url w i") (auto simp: try_block_no_url)
  note eq = try_block_eq [OF url]
  from tb obtain data where data: "fetch_json w (JStr url) = Inr data"
    by (auto simp: eq split: sum.splits)
  with tb obtain u where u: "species_url_of data = Inr u"
    by (auto simp: eq split: sum.splits)
  with tb data have "bind_exn (fetch_json w u) (\<lambda>sd. bind_exn (description_of sd) (make_record w data)) = Inr r"
    by (simp add: eq)
  then obtain sd d where sd: "fetch_json w u = Inr sd" and d: "description_of sd = Inr d"
    and r: "make_record w data d = Inr r"
    by (auto simp: bind_exn_eq_Inr)
  from data have pd: "primary_data w i = Some data"
    by (simp add: fetch_json_primary [OF url])
  from sd pd u have "species_data_of w i = Some sd"
    by (simp add: species_data_of_def payload_at_eq)
  with pd u d r show ?thesis by blast
qed

lemma map_exn_Inr:
  "map_exn f xs = Inr ys \<Longrightarrow>
   length ys = length xs \<and> (\<forall>n<length xs. f (xs ! n) = Inr (ys ! n))"
proof (induction xs arbitrary: ys)
  case Nil
  then show ?case by simp
next
  case (Cons x xs)
  from Cons.prems obtain y ys' where y: "f x = Inr y" and ys': "map_exn f xs = Inr ys'"
    and eq: "ys = y # ys'"
    by (auto simp: bind_exn_eq_Inr)
  from Cons.IH [OF ys'] y eq show ?case
    by (auto simp: nth_Cons split: nat.splits)
qed

lemma key_eq_JStr: "key_eq k' (JStr a) = (k' = JStr a)"
  by (cases k') (auto simp: key_eq_def key_num_def)

lemma dict_set_str_keys:
  "(JStr a \<in> fst ` set (dict_set d k v)) = (JStr a \<in> fst ` set d \<or> k = JStr a)"
proof (induction d)
  case Nil
  then show ?case by auto
next
  case (Cons p d)
  obtain k' v' where p: "p = (k', v')" by (cases p)
  show ?case
  proof (cases "key_eq k' k")
    case True
    have "k = JStr a \<Longrightarrow> k' = JStr a"
      using True by (simp add: key_eq_JStr)
    with True p show ?thesis by auto
  next
    case False
    with p Cons.IH show ?thesis by auto
  qed
qed

lemma stats_dict_str_keys:
  "stats_dict ss d = Inr d' \<Longrightarrow>
   (JStr a \<in> fst ` set d') = (JStr a \<in> fst ` set d \<or> (\<exists>e\<in>set ss. stat_name e = Inr (JStr a)))"
proof (induction ss arbitrary: d)
  case Nil
  then show ?case by simp
next
  case (Cons e ss)
  from Cons.prems obtain k v where k: "stat_name e = Inr k" and v: "getitem e ''base_stat'' = Inr v"
    and rest: "stats_dict ss (dict_set d k v) = Inr d'"
    by (auto simp: bind_exn_eq_Inr split: if_splits)
  from Cons.IH [OF rest] k show ?case
    by (auto simp: dict_set_str_keys)
qed

lemma dict_get_absent:
  "JStr a \<notin> fst ` set d \<Longrightarrow> dict_get d (JStr a) dflt = dflt"
  by (induction d) (auto simp: key_eq_JStr)

lemma make_record_fields:
  assumes "make_record w data d = Inr r"
  shows "getitem data ''id'' = Inr (pk_id r)"
    and "bind_exn (getitem data ''name'') (capitalize_of w) = Inr (pk_name r)"
    and "bind_exn (bind_exn (getitem data ''types'') py_iter) (map_exn type_name) = Inr (pk_types r)"
    and "bind_exn (bind_exn (getitem data ''stats'') py_iter) (\<lambda>ss. stats_dict ss []) = Inr (pk_stats r)"
    and "bind_exn (getitem data ''height'') truediv10 = Inr (pk_height r)"
    and "bind_exn (getitem data ''weight'') truediv10 = Inr (pk_weight r)"
    and "pk_description r = d"
  using assms unfolding make_record_def
  by (auto simp: bind_exn_eq_Inr)

lemma next_description_find:
  "next_description entries = Inr d \<Longrightarrow>
   (case find is_es entries of
      None \<Rightarrow> d = no_disponible
    | Some e \<Rightarrow> (\<exists>t. getitem e ''flavor_text'' = Inr (JStr t)
        \<and> d = map (\<lambda>c. if c = CHR 0x0A \<or> c = CHR 0x0C then CHR '' '' else c) t))"
proof (induction entries)
  case Nil
  then show ?case by simp
next
  case (Cons e entries)
  from Cons.prems obtain l n where l: "getitem e ''language'' = Inr l" and n: "getitem l ''name'' = Inr n"
    by (auto simp: bind_exn_eq_Inr)
  show ?case
  proof (cases "n = JStr ''es''")
    case True
    with l n have es: "is_es e" by (simp add: is_es_def)
    from Cons.prems l n True obtain v where v: "getitem e ''flavor_text'' = Inr v"
      and fv: "flavor_text_of v = Inr d"
      by (auto simp: bind_exn_eq_Inr)
    from fv obtain t where "v = JStr t"
      and "d = replace_char (CHR 0x0C) (replace_char (CHR 0x0A) t)"
      by (cases v) (auto simp: flavor_text_of_def)
    with v es show ?thesis
      by (auto simp: replace_char_def)
  next
    case False
    with l n have "\<not> is_es e" by (simp add: is_es_def)
    moreover from Cons.prems l n False have "next_description entries = Inr d" by simp
    ultimately show ?thesis using Cons.IH by simp
  qed
qed

lemma fetch_hit: "fetch_cache s i = Some v \<Longrightarrow> fetch_pokemon_data w i s = (Inr v, s)"
  by (simp add: fetch_pokemon_data_def)

lemma fetch_returns:
  assumes "fetch_pokemon_data w i s = (Inr v, s')"
  shows "fetch_cache s' i = Some v" and "load_cache s' = load_cache s"
    and "fetch_cache s i = None \<Longrightarrow> fetch_cache s' = (fetch_cache s)(i \<mapsto> v)"
  using assms fetch_uncached_caches [of w i s]
  by (auto simp: fetch_pokemon_data_def split: option.splits prod.splits sum.splits)

lemma fetch_raises:
  assumes "fetch_pokemon_data w i s = (Inl e, s')"
  shows "fetch_cache s' = fetch_cache s" and "load_cache s' = load_cache s"
    and "fetch_cache s i = None"
  using assms fetch_uncached_caches [of w i s]
  by (auto simp: fetch_pokemon_data_def split: option.splits prod.splits sum.splits)

lemma fetch_load_cache: "load_cache (snd (fetch_pokemon_data w i s)) = load_cache s"
proof (cases "fetch_pokemon_data w i s")
  case (Pair r s')
  then show ?thesis
    using fetch_returns(2) [of w i s _ s'] fetch_raises(2) [of w i s _ s']
    by (cases r) auto
qed

lemma load_loop_load_cache: "load_cache (snd (load_loop w ps acc s)) = load_cache s"
proof (induction ps arbitrary: acc s)
  case Nil
  then show ?case by simp
next
  case (Cons p ps)
  show ?case
  proof (cases "getitem p ''name''")
    case (Inl e)
    then show ?thesis by simp
  next
    case (Inr nm)
    obtain r s1 where f: "fetch_pokemon_data w nm s = (r, s1)"
      by (cases "fetch_pokemon_data w nm s")
    have s1: "load_cache s1 = load_cache s"
      using fetch_load_cache [of w nm s] f by simp
    show ?thesis
      using Inr f s1 Cons.IH
      by (auto split: sum.splits option.splits)
  qed
qed

lemma load_loop_trace:
  "load_loop w ps acc s = (Inr df, s') \<Longrightarrow>
   length (fetch_trace w ps s) = length ps \<and>
   (\<exists>rows. map_exn flat_data (map the (filter (\<lambda>v. v \<noteq> None) (fetch_trace w ps s))) = Inr rows
      \<and> df = acc @ rows)"
proof (induction ps arbitrary: acc s)
  case Nil
  then show ?case by simp
next
  case (Cons p ps)
  from Cons.prems obtain nm where nm: "getitem p ''name'' = Inr nm"
    by (auto split: sum.splits)
  obtain r s1 where f: "fetch_pokemon_data w nm s = (r, s1)"
    by (cases "fetch_pokemon_data w nm s")
  from Cons.prems nm f obtain v where v: "r = Inr v"
    by (cases r) auto
  show ?case
  proof (cases v)
    case None
    with Cons.prems nm f v have "load_loop w ps acc s1 = (Inr df, s')" by simp
    from Cons.IH [OF this] nm f v None show ?thesis by simp
  next
    case (Some data)
    with Cons.prems nm f v obtain rw where rw: "flat_data data = Inr rw"
      and rest: "load_loop w ps (acc @ [rw]) s1 = (Inr df, s')"
      by (auto split: sum.splits)
    from Cons.IH [OF rest] nm f v Some rw show ?thesis by auto
  qed
qed

lemma load_loop_empty_log: "load_loop w [] acc s = (Inr df, s') \<Longrightarrow> s' = s \<and> df = acc"
  by simp

lemma load_uncached_eq:
  "load_uncached w limit s =
     (case http_get w (listing_url limit) of
        TransportError \<Rightarrow> (Inl RequestException, s\<lparr>requests_log := requests_log s @ [listing_url limit]\<rparr>)
      | Responds r \<Rightarrow>
          (if ok r
           then (case bind_exn (bind_exn (response_json r) (\<lambda>j. getitem j ''results'')) py_iter of
                   Inl e \<Rightarrow> (Inl e, s\<lparr>requests_log := requests_log s @ [listing_url limit]\<rparr>)
                 | Inr results \<Rightarrow>
                     load_loop w results [] (s\<lparr>requests_log := requests_log s @ [listing_url limit]\<rparr>))
           else (Inr [], s\<lparr>requests_log := requests_log s @ [listing_url limit]\<rparr>)))"
  by (auto simp: load_uncached_def requests_get_def split: outcome.splits)

lemma load_uncached_load_cache: "load_cache (snd (load_uncached w limit s)) = load_cache s"
  by (auto simp: load_uncached_eq load_loop_load_cache split: outcome.splits sum.splits)

lemma load_miss:
  "load_cache s limit = None \<Longrightarrow>
   fst (load_pokemon_for_analysis w limit s) = fst (load_uncached w limit s)"
  by (auto simp: load_pokemon_for_analysis_def split: prod.splits sum.splits)

lemma load_miss_log:
  "load_cache s limit = None \<Longrightarrow>
   requests_log (snd (load_pokemon_for_analysis w limit s)) = requests_log (snd (load_uncached w limit s))"
  by (auto simp: load_pokemon_for_analysis_def split: prod.splits sum.splits)

lemma load_hit: "load_cache s limit = Some df \<Longrightarrow> load_pokemon_for_analysis w limit s = (Inr df, s)"
  by (simp add: load_pokemon_for_analysis_def)

lemma load_returns:
  assumes "load_pokemon_for_analysis w limit s = (Inr df, s')"
  shows "load_cache s' limit = Some df"
  using assms
  by (auto simp: load_pokemon_for_analysis_def split: option.splits prod.splits sum.splits)

lemma load_raises:
  assumes "load_pokemon_for_analysis w limit s = (Inl e, s')"
  shows "load_cache s' = load_cache s" and "load_cache s limit = None"
  using assms load_uncached_load_cache [of w limit s]
  by (auto simp: load_pokemon_for_analysis_def split: option.splits prod.splits sum.splits)



lemma flat_data_cases:
  "flat_data d = (case pk_types d of [] \<Rightarrow> Inl IndexError | t # ts \<Rightarrow> flat_data d)"
  by (simp split: list.splits add: flat_data_def first_type_def)

text \<open>Facts and values of the float division.\<close>

lemma bit_length_le: "n < 2 ^ k \<Longrightarrow> bit_length n \<le> k"
proof (induction n arbitrary: k rule: bit_length.induct)
  case (1 n)
  show ?case
  proof (cases "n = 0")
    case True
    then show ?thesis by (simp add: bit_length.simps)
  next
    case False
    with "1.prems" obtain j where k: "k = Suc j"
      by (cases k) auto
    with "1.prems" have "n div 2 < 2 ^ j" by auto
    from "1.IH" [OF False this] False k show ?thesis
      by (simp add: bit_length.simps [of n])
  qed
qed

lemma round_half_even_one: "round_half_even n 1 = n"
  by (simp add: round_half_even_def)

lemma floor_log2_le: "floor_log2 p q \<le> int (bit_length (nat p)) - int (bit_length (nat q))"
  by (simp add: floor_log2_def Let_def)

lemma bit_length_one: "bit_length (Suc 0) = 1"
  by (simp add: bit_length.simps)

lemma round_double_exact:
  assumes "0 < p" and "p < 2 ^ 53"
  shows "round_double p 1 = of_int p"
proof -
  from assms have "nat p < 2 ^ 53"
    by (simp add: nat_less_iff)
  then have "bit_length (nat p) \<le> 53" by (rule bit_length_le)
  with floor_log2_le [of p 1] have "floor_log2 p 1 - 52 \<le> 0"
    by (simp add: bit_length_one)
  then have e: "max (floor_log2 p 1 - 52) (- 1074) \<le> 0" by simp
  define e where "e = max (floor_log2 p 1 - 52) (- 1074)"
  from e have "nat e = 0" by (simp add: e_def)
  then show ?thesis
    unfolding round_double_def Let_def e_def [symmetric]
    by (simp add: round_half_even_one)
qed

lemma float_of_int_exact:
  assumes "\<bar>i\<bar> < 2 ^ 53"
  shows "float_of_int i = Inr (of_int i)"
proof (cases "i = 0")
  case True
  then show ?thesis by (simp add: float_of_int_def)
next
  case False
  then have pos: "0 < \<bar>i\<bar>" by simp
  have rd: "round_double \<bar>i\<bar> 1 = of_int \<bar>i\<bar>"
    using pos assms by (rule round_double_exact)
  have "(of_int \<bar>i\<bar> :: rat) < 2 ^ 53"
    using assms by (metis of_int_less_iff of_int_numeral of_int_power)
  also have "\<dots> \<le> 2 ^ 1024" by simp
  finally have small: "\<not> (2 ^ 1024 \<le> (of_int \<bar>i\<bar> :: rat))" by simp
  have "(of_int (sgn i) :: rat) * of_int \<bar>i\<bar> = of_int i"
    by (metis mult_sgn_abs of_int_mult)
  with False rd small show ?thesis
    by (simp add: float_of_int_def)
qed

lemma bit_length_values:
  "bit_length (Suc 0) = 1" "bit_length 4 = 3" "bit_length 5 = 3" "bit_length 8 = 4"
  "bit_length 10 = 4" "bit_length 60 = 6" "bit_length 90 = 7" "bit_length 300 = 9"
  by (simp_all add: bit_length.simps)

lemma round_double_values:
  "round_double 1 10 = 3602879701896397 / 36028797018963968"
  "round_double 4 10 = 3602879701896397 / 9007199254740992"
  "round_double 5 10 = 1 / 2"
  "round_double 8 10 = 3602879701896397 / 4503599627370496"
  "round_double 60 10 = 6"
  "round_double 90 10 = 9"
  "round_double 300 10 = 30"
  by (simp_all add: round_double_def floor_log2_def bit_length_values round_half_even_def)

lemma float_div10_values:
  "float_div10 1 = 3602879701896397 / 36028797018963968"
  "float_div10 4 = 3602879701896397 / 9007199254740992"
  "float_div10 5 = 1 / 2"
  "float_div10 8 = 3602879701896397 / 4503599627370496"
  "float_div10 60 = 6"
  "float_div10 90 = 9"
  "float_div10 300 = 30"
  by (simp_all add: float_div10_def round_double_values)

lemma truediv10_small:
  "\<bar>i\<bar> < 2 ^ 53 \<Longrightarrow> truediv10 (JInt i) = Inr (float_div10 (of_int i))"
  by (simp add: truediv10_def float_of_int_exact bind_exn_def)

lemma truediv10_values:
  "truediv10 (JInt 1) = Inr (3602879701896397 / 36028797018963968)"
  "truediv10 (JInt 4) = Inr (3602879701896397 / 9007199254740992)"
  "truediv10 (JInt 5) = Inr (1 / 2)"
  "truediv10 (JInt 8) = Inr (3602879701896397 / 4503599627370496)"
  "truediv10 (JInt 60) = Inr 6"
  "truediv10 (JInt 90) = Inr 9"
  "truediv10 (JInt 300) = Inr 30"
  by (simp_all add: truediv10_small float_div10_values)

lemmas service_defs = service_def service_table_def answers_def results_of_def named_def
  pikachu_data_def pikachu_species_def raichu_data_def raichu_species_def typeless_data_def
  orphan_data_def bare_data_def entity_def flavor_def cold_def

lemmas run_defs = fetch_pokemon_data_def fetch_uncached_def try_block_def get_json_def
  requests_get_def raise_for_status_def response_json_def ok_def pokemon_url_def py_str_def
  lower_def lower_char_def upper_letters_def lower_letters_def upper_char_def capitalize_def
  capitalize_ascii_def is_ascii_def capitalize_of_def getitem_def
  py_iter_def truediv10_values description_of_def flavor_text_of_def replace_char_def
  make_record_def type_name_def stat_name_def hashable_def key_eq_def key_num_def
  no_disponible_def str_nat.simps digit_char_def

lemmas load_defs = load_pokemon_for_analysis_def load_uncached_def listing_url_def str_int_def
  str_nat.simps digit_char_def flat_data_def first_type_def second_type_def

lemma service_pikachu:
  "fst (fetch_pokemon_data service (JStr ''pikachu'') cold) = Inr (Some pikachu_record)"
  by (simp add: service_defs run_defs pikachu_record_def)

lemma service_typeless:
  "fst (fetch_pokemon_data service (JStr ''typeless'') cold) = Inr (Some typeless_record)"
  by (simp add: service_defs run_defs typeless_record_def)

lemma cold_miss [simp]: "fetch_cache cold i = None" "load_cache cold n = None"
  by (simp_all add: cold_def)

lemma fetch_uncached_same_url:
  assumes "pokemon_url w b = pokemon_url w a"
  shows "fetch_uncached w b s = fetch_uncached w a s"
  unfolding fetch_uncached_def try_block_def assms by (rule refl)

lemma try_block_log:
  "pokemon_url w i = Inr url \<Longrightarrow>
   \<exists>more. requests_log (snd (try_block w i s)) = requests_log s @ url # more"
  by (auto simp: try_block_eq split: sum.splits)

lemma fetch_uncached_log:
  "pokemon_url w i = Inr url \<Longrightarrow>
   \<exists>more. requests_log (snd (fetch_uncached w i s)) = requests_log s @ url # more"
  using try_block_log [of w i url s]
  by (auto simp: fetch_uncached_def split: prod.splits sum.splits exn.splits)

lemma fetch_miss_log:
  "fetch_cache s i = None \<Longrightarrow>
   requests_log (snd (fetch_pokemon_data w i s)) = requests_log (snd (fetch_uncached w i s))"
  by (auto simp: fetch_pokemon_data_def split: prod.splits sum.splits)

lemma filter_None_count:
  "length (filter (\<lambda>v. v \<noteq> None) xs) = length xs - length (filter (\<lambda>v. v = None) xs)"
  using sum_length_filter_compl [of "\<lambda>v. v = None" xs] by simp

lemma load_miss_returns:
  assumes "load_cache s limit = None"
      and "load_pokemon_for_analysis w limit s = (Inr df, s')"
  shows "\<exists>s2. load_uncached w limit s = (Inr df, s2) \<and> requests_log s' = requests_log s2"
  using assms
  by (auto simp: load_pokemon_for_analysis_def split: prod.splits sum.splits)

lemma bind_exn_eq_Inl: "(bind_exn m f = Inl e) = (m = Inl e \<or> (\<exists>x. m = Inr x \<and> f x = Inl e))"
  by (cases m) simp_all

lemma getitem_raises: "getitem v k = Inl e \<Longrightarrow> e = KeyError \<or> e = TypeError"
  by (cases v) (auto simp: getitem_def split: option.splits)

lemma py_iter_raises: "py_iter v = Inl e \<Longrightarrow> e = TypeError"
  by (cases v) (auto simp: py_iter_def)

lemma truediv10_raises: "truediv10 v = Inl e \<Longrightarrow> e = TypeError \<or> e = OverflowError"
  by (cases v) (auto simp: truediv10_def float_of_int_def bind_exn_eq_Inl split: if_splits)

lemma capitalize_of_raises: "capitalize_of w v = Inl e \<Longrightarrow> e = AttributeError"
  by (cases v) (auto simp: capitalize_of_def)

lemma flavor_text_of_raises: "flavor_text_of v = Inl e \<Longrightarrow> e = AttributeError"
  by (cases v) (auto simp: flavor_text_of_def)

lemma type_name_raises: "type_name t = Inl e \<Longrightarrow> e = KeyError \<or> e = TypeError"
  by (auto simp: type_name_def bind_exn_eq_Inl dest: getitem_raises)

lemma stat_name_raises: "stat_name t = Inl e \<Longrightarrow> e = KeyError \<or> e = TypeError"
  by (auto simp: stat_name_def bind_exn_eq_Inl dest: getitem_raises)

lemma species_url_of_raises: "species_url_of d = Inl e \<Longrightarrow> e = KeyError \<or> e = TypeError"
  by (auto simp: species_url_of_def bind_exn_eq_Inl dest: getitem_raises)

lemma map_exn_raises: "map_exn f xs = Inl e \<Longrightarrow> \<exists>x\<in>set xs. f x = Inl e"
  by (induction xs) (auto simp: bind_exn_eq_Inl)

lemma stats_dict_raises: "stats_dict ss d = Inl e \<Longrightarrow> e = KeyError \<or> e = TypeError"
  by (induction ss arbitrary: d)
     (auto simp: bind_exn_eq_Inl split: if_splits dest: getitem_raises stat_name_raises)

lemma next_description_raises:
  "next_description es = Inl e \<Longrightarrow> e = KeyError \<or> e = TypeError \<or> e = AttributeError"
  by (induction es)
     (auto simp: bind_exn_eq_Inl split: if_splits dest: getitem_raises flavor_text_of_raises)

lemma description_of_raises:
  "description_of sd = Inl e \<Longrightarrow> e = KeyError \<or> e = TypeError \<or> e = AttributeError"
  by (auto simp: description_of_def bind_exn_eq_Inl
        dest: getitem_raises py_iter_raises next_description_raises)

lemma make_record_raises:
  "make_record w data d = Inl e \<Longrightarrow>
   e = KeyError \<or> e = TypeError \<or> e = AttributeError \<or> e = OverflowError"
  unfolding make_record_def
  by (auto simp: bind_exn_eq_Inl
        dest: getitem_raises py_iter_raises capitalize_of_raises truediv10_raises
          stats_dict_raises type_name_raises dest!: map_exn_raises)

lemma fetch_uncached_passes:
  "fst (try_block w i s) = Inl e \<Longrightarrow> e \<noteq> RequestException \<Longrightarrow> fst (fetch_uncached w i s) = Inl e"
  by (cases e) (auto simp: fetch_uncached_def split: prod.splits sum.splits)

lemma primary_data_url:
  "primary_data w i = Some data \<Longrightarrow> \<exists>url. pokemon_url w i = Inr url \<and> fetch_json w (JStr url) = Inr data"
  by (cases "pokemon_url w i") (auto simp: primary_data_def payload_at_eq)

lemma fetch_species_url_raises:
  assumes "fetch_cache s i = None" and "primary_data w i = Some data"
      and "species_url_of data = Inl e"
  shows "fst (fetch_pokemon_data w i s) = Inl e"
proof -
  from primary_data_url [OF assms(2)] obtain url where url: "pokemon_url w i = Inr url"
    and data: "fetch_json w (JStr url) = Inr data" by blast
  have "fst (try_block w i s) = Inl e"
    by (simp add: try_block_eq [OF url] data assms(3))
  moreover from species_url_of_raises [OF assms(3)] have "e \<noteq> RequestException" by auto
  ultimately show ?thesis
    by (simp add: fetch_miss [OF assms(1)] fetch_uncached_passes)
qed

lemma fetch_field_raises:
  assumes "fetch_cache s i = None" and "primary_data w i = Some data"
      and "species_url_of data = Inr u" and "payload_at w u = Some sd"
      and "bind_exn (description_of sd) (make_record w data) = Inl e"
  shows "fst (fetch_pokemon_data w i s) = Inl e"
proof -
  from primary_data_url [OF assms(2)] obtain url where url: "pokemon_url w i = Inr url"
    and data: "fetch_json w (JStr url) = Inr data" by blast
  from assms(4) have sd: "fetch_json w u = Inr sd" by (simp add: payload_at_eq)
  have "fst (try_block w i s) = Inl e"
    by (simp add: try_block_eq [OF url] data assms(3) sd assms(5))
  moreover from assms(5) have "e \<noteq> RequestException"
    by (auto simp: bind_exn_eq_Inl dest: description_of_raises make_record_raises)
  ultimately show ?thesis
    by (simp add: fetch_miss [OF assms(1)] fetch_uncached_passes)
qed

section \<open>The claims\<close>

text \<open>
  C1, as stated: whatever goes wrong, \<^verbatim>\<open>fetch_pokemon_data\<close> returns \<^verbatim>\<open>None\<close> and no
  exception reaches the caller, a missing JSON field included. A primary payload without
  the \<^verbatim>\<open>species\<close> field makes the call raise \<^verbatim>\<open>KeyError\<close>.
\<close>

theorem fetch_missing_field_raises:
  "fst (fetch_pokemon_data service (JStr ''broken'') cold) = Inl KeyError"
  by (simp add: service_defs run_defs)

text \<open>
  C1, amended: when a request of the fetch fails (the transport raises, the status is in
  400..599, or the payload is not valid JSON), be it the primary or the species request,
  the call returns \<^verbatim>\<open>None\<close>, and no call ever raises a \<^verbatim>\<open>RequestException\<close>. A missing or
  ill-typed field is not converted: the exception raised while the species URL is read
  from the primary payload, or while the description and the record are built from the
  two payloads, is the outcome of the call.
\<close>

theorem fetch_request_failure_absent:
  "(fetch_cache s ident = None \<and> (primary_fails w ident \<or> species_fails w ident)
      \<longrightarrow> fst (fetch_pokemon_data w ident s) = Inr None)
   \<and> fst (fetch_pokemon_data w ident s) \<noteq> Inl RequestException
   \<and> (\<forall>data e. fetch_cache s ident = None \<and> primary_data w ident = Some data
          \<and> species_url_of data = Inl e
        \<longrightarrow> fst (fetch_pokemon_data w ident s) = Inl e)
   \<and> (\<forall>data u sd e. fetch_cache s ident = None \<and> primary_data w ident = Some data
          \<and> species_url_of data = Inr u \<and> payload_at w u = Some sd
          \<and> bind_exn (description_of sd) (make_record w data) = Inl e
        \<longrightarrow> fst (fetch_pokemon_data w ident s) = Inl e)"
  using fetch_uncached_fails [of w ident s] fetch_miss [of s ident w]
    fetch_not_RequestException [of w ident s]
    fetch_species_url_raises [of s ident w] fetch_field_raises [of s ident w]
  by auto

text \<open>
  C1, witness: the primary request of \<open>missingno\<close> is answered 404, the species request
  of \<open>orphan\<close> is answered 503, and both fetches return \<^verbatim>\<open>None\<close>; the payload of
  \<open>broken\<close> has no \<^verbatim>\<open>species\<close> and the payload of \<open>bare\<close> has no \<^verbatim>\<open>id\<close>, and both
  fetches raise \<^verbatim>\<open>KeyError\<close>.
\<close>

theorem fetch_request_failure_absent_witness:
  "fetch_cache cold (JStr ''missingno'') = None \<and> primary_fails service (JStr ''missingno'')
   \<and> fst (fetch_pokemon_data service (JStr ''missingno'') cold) = Inr None
   \<and> fetch_cache cold (JStr ''orphan'') = None \<and> species_fails service (JStr ''orphan'')
   \<and> fst (fetch_pokemon_data service (JStr ''orphan'') cold) = Inr None
   \<and> primary_data service (JStr ''broken'') = Some (JObj [])
   \<and> species_url_of (JObj []) = Inl KeyError
   \<and> fst (fetch_pokemon_data service (JStr ''broken'') cold) = Inl KeyError
   \<and> primary_data service (JStr ''bare'') = Some bare_data
   \<and> species_url_of bare_data = Inr (JStr ''https://pokeapi.co/api/v2/pokemon-species/25/'')
   \<and> payload_at service (JStr ''https://pokeapi.co/api/v2/pokemon-species/25/'') = Some pikachu_species
   \<and> bind_exn (description_of pikachu_species) (make_record service bare_data) = Inl KeyError
   \<and> fst (fetch_pokemon_data service (JStr ''bare'') cold) = Inl KeyError"
proof -
  note world_defs = primary_data_def payload_at_def fetch_json_def request_fails_def
    species_url_of_def pokemon_url_def py_str_def lower_def lower_char_def upper_letters_def
    lower_letters_def ok_def getitem_def raise_for_status_def response_json_def
    str_nat.simps digit_char_def
  have p: "primary_fails service (JStr ''missingno'')"
    by (simp add: primary_fails_def world_defs service_defs)
  have q: "species_fails service (JStr ''orphan'')"
    by (simp add: species_fails_def world_defs service_defs)
  have b1: "primary_data service (JStr ''broken'') = Some (JObj [])"
    by (simp add: world_defs service_defs)
  have b2: "species_url_of (JObj []) = Inl KeyError"
    by (simp add: species_url_of_def getitem_def)
  have c1: "primary_data service (JStr ''bare'') = Some bare_data"
    by (simp add: world_defs service_defs)
  have c2: "species_url_of bare_data = Inr (JStr ''https://pokeapi.co/api/v2/pokemon-species/25/'')"
    by (simp add: species_url_of_def getitem_def bare_data_def)
  have c3: "payload_at service (JStr ''https://pokeapi.co/api/v2/pokemon-species/25/'') = Some pikachu_species"
    by (simp add: world_defs service_defs)
  have c4: "bind_exn (description_of pikachu_species) (make_record service bare_data) = Inl KeyError"
    by (simp add: description_of_def py_iter_def getitem_def flavor_text_of_def replace_char_def
          make_record_def pikachu_species_def flavor_def bare_data_def)
  show ?thesis
    using p q b1 b2 c1 c2 c3 c4
      fetch_request_failure_absent [of cold "JStr ''missingno''" service]
      fetch_request_failure_absent [of cold "JStr ''orphan''" service]
      fetch_request_failure_absent [of cold "JStr ''broken''" service]
      fetch_request_failure_absent [of cold "JStr ''bare''" service]
    by simp
qed

text \<open>
  C4, as stated: without an entry in the target locale the description is the string
  "description unavailable". The species of \<open>raichu\<close> has an English entry only, and
  the description is the Spanish sentence of the source.
\<close>

theorem fetch_fallback_text:
  "map_sum id (map_option pk_description) (fst (fetch_pokemon_data service (JStr ''raichu'') cold))
     = Inr (Some (''Descripci'' @ [CHR 0xF3] @ ''n no disponible.''))
   \<and> ''Descripci'' @ [CHR 0xF3] @ ''n no disponible.'' \<noteq> ''description unavailable''"
  by (simp add: service_defs run_defs)

text \<open>
  C4, amended: the description of a fetched record is the flavor text of the first entry,
  in list order, whose language name is \<open>es\<close>, each line feed and form feed replaced by
  one space; without such an entry it is the fixed Spanish sentence of the source
  (\<open>no_disponible\<close>, written out in the statement), which is not empty.
\<close>

theorem fetch_description_first_es:
  assumes "fetch_cache s ident = None"
      and "fst (fetch_pokemon_data w ident s) = Inr (Some r)"
  shows "\<exists>sd entries.
           species_data_of w ident = Some sd
         \<and> bind_exn (getitem sd ''flavor_text_entries'') py_iter = Inr entries
         \<and> (case find is_es entries of
              None \<Rightarrow> pk_description r = ''Descripci'' @ [CHR 0xF3] @ ''n no disponible.''
                        \<and> pk_description r \<noteq> []
            | Some e \<Rightarrow> (\<exists>t. getitem e ''flavor_text'' = Inr (JStr t)
                \<and> pk_description r
                    = map (\<lambda>c. if c = CHR 0x0A \<or> c = CHR 0x0C then CHR '' '' else c) t))"
proof -
  from fetch_success [OF assms] obtain data sd d where sd: "species_data_of w ident = Some sd"
    and d: "description_of sd = Inr d" and mk: "make_record w data d = Inr r"
    by blast
  from d obtain entries where es: "bind_exn (getitem sd ''flavor_text_entries'') py_iter = Inr entries"
    and nd: "next_description entries = Inr d"
    by (auto simp: description_of_def bind_exn_eq_Inr)
  from make_record_fields(7) [OF mk] have "pk_description r = d" .
  with next_description_find [OF nd]
  have "case find is_es entries of
              None \<Rightarrow> pk_description r = ''Descripci'' @ [CHR 0xF3] @ ''n no disponible.''
                        \<and> pk_description r \<noteq> []
            | Some e \<Rightarrow> (\<exists>t. getitem e ''flavor_text'' = Inr (JStr t)
                \<and> pk_description r
                    = map (\<lambda>c. if c = CHR 0x0A \<or> c = CHR 0x0C then CHR '' '' else c) t)"
    by (auto simp: no_disponible_def split: option.splits)
  with sd es show ?thesis by blast
qed

text \<open>
  C4, witness: the species of \<open>pikachu\<close> has an English entry, then two Spanish ones;
  the first Spanish text has a line feed and a form feed.
\<close>

theorem fetch_description_first_es_witness:
  "fetch_cache cold (JStr ''pikachu'') = None
   \<and> fst (fetch_pokemon_data service (JStr ''pikachu'') cold) = Inr (Some pikachu_record)
   \<and> pk_description pikachu_record = ''Un rat on''
   \<and> (\<exists>sd entries.
           species_data_of service (JStr ''pikachu'') = Some sd
         \<and> bind_exn (getitem sd ''flavor_text_entries'') py_iter = Inr entries
         \<and> (case find is_es entries of
              None \<Rightarrow> pk_description pikachu_record = ''Descripci'' @ [CHR 0xF3] @ ''n no disponible.''
                        \<and> pk_description pikachu_record \<noteq> []
            | Some e \<Rightarrow> (\<exists>t. getitem e ''flavor_text'' = Inr (JStr t)
                \<and> pk_description pikachu_record
                    = map (\<lambda>c. if c = CHR 0x0A \<or> c = CHR 0x0C then CHR '' '' else c) t)))"
proof -
  have h1: "fetch_cache cold (JStr ''pikachu'') = None" by simp
  have d: "pk_description pikachu_record = ''Un rat on''" by (simp add: pikachu_record_def)
  show ?thesis
    using h1 service_pikachu d fetch_description_first_es [OF h1 service_pikachu]
    by simp
qed

text \<open>
  C5, as stated: at most \<open>N\<close> rows for the limit \<open>N\<close>, and no per-entity fetch for the
  limit 0. The loop runs over the entries the listing returns, however many: a service
  that lists two entries for the limit 1 gives two rows, and one that lists an entry for
  the limit 0 gets that entry fetched.
\<close>

theorem load_more_rows_than_limit:
  "map_sum id length (fst (load_pokemon_for_analysis service 1 cold)) = Inr 2
   \<and> map_sum id length (fst (load_pokemon_for_analysis service 0 cold)) = Inr 1
   \<and> requests_log (snd (load_pokemon_for_analysis service 0 cold))
       = [''https://pokeapi.co/api/v2/pokemon?limit=0'',
          ''https://pokeapi.co/api/v2/pokemon/pikachu'',
          ''https://pokeapi.co/api/v2/pokemon-species/25/'']"
  by (simp add: service_defs run_defs load_defs)

text \<open>
  C5, amended: when the loader returns a dataset, every listed entry was fetched, in
  listing order; the rows are the flattened records of the fetches that returned one, in
  that order; their number is the number of listed entries minus the number of fetches
  that returned \<^verbatim>\<open>None\<close>, hence at most the number of listed entries (and at most the limit
  when the service lists no more than that); and when nothing is listed the dataset is
  empty and the listing request is the only request.
\<close>

theorem load_row_count:
  assumes "load_cache s limit = None"
      and "load_pokemon_for_analysis w limit s = (Inr df, s')"
  shows "let results = listed w limit;
             outcomes = fetch_trace w results (s\<lparr>requests_log := requests_log s @ [listing_url limit]\<rparr>)
         in length outcomes = length results
          \<and> map_exn flat_data (map the (filter (\<lambda>v. v \<noteq> None) outcomes)) = Inr df
          \<and> length df = length results - length (filter (\<lambda>v. v = None) outcomes)
          \<and> length df \<le> length results
          \<and> (length results \<le> nat limit \<longrightarrow> length df \<le> nat limit)
          \<and> (results = [] \<longrightarrow> df = [] \<and> requests_log s' = requests_log s @ [listing_url limit])"
proof -
  define s1 where "s1 = s\<lparr>requests_log := requests_log s @ [listing_url limit]\<rparr>"
  define results where "results = listed w limit"
  define outcomes where "outcomes = fetch_trace w results s1"
  from load_miss_returns [OF assms] obtain s2 where unc: "load_uncached w limit s = (Inr df, s2)"
    and log: "requests_log s' = requests_log s2"
    by blast
  have loop: "load_loop w results [] s1 = (Inr df, s2)"
    using unc unfolding results_def s1_def
    by (auto simp: load_uncached_eq listed_def split: outcome.splits if_splits sum.splits)
  from load_loop_trace [OF loop]
  have len: "length outcomes = length results"
    and rows: "map_exn flat_data (map the (filter (\<lambda>v. v \<noteq> None) outcomes)) = Inr df"
    by (simp_all add: outcomes_def)
  have "length df = length (map the (filter (\<lambda>v. v \<noteq> None) outcomes))"
    using map_exn_Inr [OF rows] by (rule conjunct1)
  also have "\<dots> = length outcomes - length (filter (\<lambda>v. v = None) outcomes)"
    unfolding length_map by (rule filter_None_count)
  finally have count: "length df = length results - length (filter (\<lambda>v. v = None) outcomes)"
    unfolding len .
  then have le: "length df \<le> length results" by simp
  have empty: "df = [] \<and> requests_log s' = requests_log s @ [listing_url limit]" if "results = []"
    using loop that log by (auto simp: s1_def)
  from len rows count le empty show ?thesis
    unfolding Let_def results_def [symmetric] s1_def [symmetric] outcomes_def [symmetric]
    by auto
qed

text \<open>
  C5, witness: the limit 3 lists \<open>pikachu\<close>, \<open>missingno\<close> (answered 404) and \<open>raichu\<close>.
\<close>

theorem load_row_count_witness:
  "load_cache cold 3 = None
   \<and> map_sum id length (fst (load_pokemon_for_analysis service 3 cold)) = Inr 2
   \<and> length (listed service 3) = 3
   \<and> length (filter (\<lambda>v. v = None)
        (fetch_trace service (listed service 3)
           (cold\<lparr>requests_log := requests_log cold @ [listing_url 3]\<rparr>))) = 1"
proof -
  have h1: "load_cache cold 3 = None" by simp
  obtain df s' where run: "load_pokemon_for_analysis service 3 cold = (Inr df, s')"
    and two: "length df = 2"
  proof
    show "load_pokemon_for_analysis service 3 cold
            = (Inr (projr (fst (load_pokemon_for_analysis service 3 cold))),
               snd (load_pokemon_for_analysis service 3 cold))"
      by (simp add: service_defs run_defs load_defs prod_eq_iff)
    show "length (projr (fst (load_pokemon_for_analysis service 3 cold))) = 2"
      by (simp add: service_defs run_defs load_defs)
  qed
  have three: "length (listed service 3) = 3"
    by (simp add: listed_def service_defs load_defs run_defs)
  let ?absent = "length (filter (\<lambda>v. v = None)
        (fetch_trace service (listed service 3)
           (cold\<lparr>requests_log := requests_log cold @ [listing_url 3]\<rparr>)))"
  from load_row_count [OF h1 run] have "length df = length (listed service 3) - ?absent"
    by (simp add: Let_def)
  with two three have "?absent = 1" by linarith
  with two three h1 run show ?thesis
    by simp
qed



text \<open>
  C10: flattening reads \<^verbatim>\<open>data['types'][0]\<close> without a guard. With a non-empty types
  list it gives a row whose primary type is the first one; with an empty list it raises
  \<^verbatim>\<open>IndexError\<close>, and the loop of the loader raises it too instead of skipping the entry.
\<close>

theorem flat_data_first_type_unguarded:
  "(pk_types d \<noteq> [] \<longrightarrow> (\<exists>rw. flat_data d = Inr rw \<and> col_Tipo_Primario rw = hd (pk_types d)))
   \<and> (pk_types d = [] \<longrightarrow> flat_data d = Inl IndexError)
   \<and> (getitem p ''name'' = Inr nm \<and> fetch_pokemon_data w nm s = (Inr (Some d), s') \<and> pk_types d = []
        \<longrightarrow> load_loop w (p # rest) acc s = (Inl IndexError, s'))"
  by (cases "pk_types d") (auto simp: flat_data_def first_type_def)

text \<open>
  C10, witness: the record of \<open>typeless\<close> has no types, the record of \<open>pikachu\<close> has one.
\<close>

theorem flat_data_first_type_unguarded_witness:
  "pk_types typeless_record = []
   \<and> flat_data typeless_record = Inl IndexError
   \<and> getitem (named ''typeless'') ''name'' = Inr (JStr ''typeless'')
   \<and> fst (fetch_pokemon_data service (JStr ''typeless'') cold) = Inr (Some typeless_record)
   \<and> fst (load_loop service [named ''typeless'', named ''pikachu''] [] cold) = Inl IndexError
   \<and> pk_types pikachu_record \<noteq> []
   \<and> (\<exists>rw. flat_data pikachu_record = Inr rw \<and> col_Tipo_Primario rw = JStr ''electric'')"
proof -
  have e: "pk_types typeless_record = []" by (simp add: typeless_record_def)
  have n: "getitem (named ''typeless'') ''name'' = Inr (JStr ''typeless'')"
    by (simp add: named_def getitem_def)
  have f: "fetch_pokemon_data service (JStr ''typeless'') cold
      = (Inr (Some typeless_record), snd (fetch_pokemon_data service (JStr ''typeless'') cold))"
    using service_typeless by (simp add: prod_eq_iff)
  have t: "pk_types pikachu_record = [JStr ''electric'']" by (simp add: pikachu_record_def)
  from flat_data_first_type_unguarded [of typeless_record "named ''typeless''" "JStr ''typeless''"
      service cold "snd (fetch_pokemon_data service (JStr ''typeless'') cold)" "[named ''pikachu'']" "[]"]
    e n f
  have 1: "flat_data typeless_record = Inl IndexError"
    and 2: "load_loop service [named ''typeless'', named ''pikachu''] [] cold
      = (Inl IndexError, snd (fetch_pokemon_data service (JStr ''typeless'') cold))"
    by blast+
  from flat_data_first_type_unguarded [of pikachu_record] t
  have 3: "\<exists>rw. flat_data pikachu_record = Inr rw \<and> col_Tipo_Primario rw = JStr ''electric''"
    by simp
  from e n service_typeless t 1 2 3 show ?thesis by simp
qed

end
